theory Spec2Isabelle
  imports Main
begin

section \<open>The platform that \<^verbatim>\<open>API.js\<close> runs on\<close>

text \<open>
  \<^verbatim>\<open>API.js\<close> defines two functions, \<^verbatim>\<open>get(url)\<close> and \<^verbatim>\<open>post(url, data)\<close>. Both build a
  \<^verbatim>\<open>Promise\<close> around one \<^verbatim>\<open>XMLHttpRequest\<close> and use the global \<^verbatim>\<open>JSON\<close> object. These three
  are browser primitives, not code of the file, so the embedding fixes what the file relies
  on and nothing more:
  \<^item> a thrown JavaScript exception is a value of \<open>js_error\<close>, and a computation that may
    throw returns \<open>js_error + 'a\<close> (\<open>Inl\<close> is the throw);
  \<^item> a promise is its settlement state; \<open>resolve\<close> and \<open>reject\<close> settle a pending promise
    and do nothing to a settled one; an executor that throws rejects its promise;
  \<^item> the browser is a parameter: a record of the two methods of the \<^verbatim>\<open>JSON\<close> object that the
    file calls, and of its URL parser, which decides whether \<^verbatim>\<open>open\<close> accepts a URL;
  \<^item> an \<^verbatim>\<open>XMLHttpRequest\<close> is a record of the request it was told to send, of the
    response attributes the file reads, and of its event-handler attributes.
\<close>

datatype js_error = SyntaxError | TypeError | DOMException_SyntaxError

datatype 'a promise_state = Pending | Fulfilled 'a | Rejected js_error

definition resolve :: "'a \<Rightarrow> 'a promise_state \<Rightarrow> 'a promise_state" where
  "resolve v p = (case p of Pending \<Rightarrow> Fulfilled v | _ \<Rightarrow> p)"

definition reject :: "js_error \<Rightarrow> 'a promise_state \<Rightarrow> 'a promise_state" where
  "reject e p = (case p of Pending \<Rightarrow> Rejected e | _ \<Rightarrow> p)"

text \<open>
  \<^verbatim>\<open>JSON.parse(text)\<close> returns a value or throws; \<^verbatim>\<open>JSON.stringify(value)\<close> returns a string,
  returns \<^verbatim>\<open>undefined\<close> (\<open>None\<close>), or throws. \<open>'v\<close> is the type of JavaScript values.
\<close>

record 'v JSON =
  parse :: "string \<Rightarrow> js_error + 'v"
  stringify :: "'v \<Rightarrow> js_error + string option"

text \<open>
  The browser: its \<^verbatim>\<open>JSON\<close> object and its URL parser. \<open>URL_canParse B u\<close> says that the
  browser can parse the URL \<open>u\<close> (against the address of the page).
\<close>

record 'v browser = "'v JSON" +
  URL_canParse :: "string \<Rightarrow> bool"

text \<open>The typedef \<^verbatim>\<open>Response\<close> at the end of the file: \<^verbatim>\<open>{status: number, data: User|Error}\<close>.\<close>

record 'v Response =
  status :: int
  data :: 'v

text \<open>
  The attributes of an \<^verbatim>\<open>XMLHttpRequest\<close>. \<open>req_method\<close> and \<open>req_url\<close> are set by \<^verbatim>\<open>open\<close>,
  \<open>req_headers\<close> grows with \<^verbatim>\<open>setRequestHeader\<close>, \<open>req_body\<close> and \<open>sent\<close> are set by
  \<^verbatim>\<open>send\<close>. \<open>http_status\<close> and \<open>response\<close> are the attributes \<^verbatim>\<open>status\<close> and \<^verbatim>\<open>response\<close> (the
  body text, the response type being the default one).
\<close>

record xhr_attributes =
  req_method :: string
  req_url :: string
  req_headers :: "(string \<times> string) list"
  req_body :: "string option"
  sent :: bool
  http_status :: int
  response :: string

text \<open>
  An event handler is a closure over the request object and the promise: it reads the
  attributes of the request, and either throws or returns the new state of the promise.
\<close>

type_synonym 'p handler = "xhr_attributes \<Rightarrow> 'p \<Rightarrow> js_error + 'p"

record 'p XMLHttpRequest = xhr_attributes +
  onreadystatechange :: "'p handler option"
  onloadstart :: "'p handler option"
  onprogress :: "'p handler option"
  onabort :: "'p handler option"
  onerror :: "'p handler option"
  onload :: "'p handler option"
  ontimeout :: "'p handler option"
  onloadend :: "'p handler option"

definition new_XMLHttpRequest :: "'p XMLHttpRequest" where
  "new_XMLHttpRequest =
     \<lparr>req_method = [], req_url = [], req_headers = [], req_body = None, sent = False,
      http_status = 0, response = [],
      onreadystatechange = None, onloadstart = None, onprogress = None, onabort = None,
      onerror = None, onload = None, ontimeout = None, onloadend = None\<rparr>"

text \<open>
  \<^verbatim>\<open>open\<close> throws a \<^verbatim>\<open>DOMException\<close> named \<^verbatim>\<open>SyntaxError\<close> on a URL that the browser cannot
  parse, and leaves the request as it was. It throws on a malformed method too, and
  \<^verbatim>\<open>setRequestHeader\<close> and \<^verbatim>\<open>send\<close> throw on a malformed header and on a request that is not
  open; the file calls them after \<^verbatim>\<open>open\<close> with the constant methods \<^verbatim>\<open>GET\<close> and \<^verbatim>\<open>POST\<close> and a
  constant, well-formed header, so these have no branch.
\<close>

definition xhr_open ::
  "'v browser \<Rightarrow> string \<Rightarrow> string \<Rightarrow> 'p XMLHttpRequest \<Rightarrow> js_error + 'p XMLHttpRequest" where
  "xhr_open B m u h =
     (if URL_canParse B u then Inr (h\<lparr>req_method := m, req_url := u\<rparr>)
      else Inl DOMException_SyntaxError)"

definition setRequestHeader :: "string \<Rightarrow> string \<Rightarrow> 'p XMLHttpRequest \<Rightarrow> 'p XMLHttpRequest" where
  "setRequestHeader k v h = h\<lparr>req_headers := req_headers h @ [(k, v)]\<rparr>"

definition send :: "string option \<Rightarrow> 'p XMLHttpRequest \<Rightarrow> 'p XMLHttpRequest" where
  "send b h = h\<lparr>req_body := b, sent := True\<rparr>"

text \<open>
  What one call leaves behind: the promise it returned, the request object its closures
  hold, and the exceptions that escaped from event handlers (the browser reports them; no
  code of the file sees them).
\<close>

record 'v call_state =
  promise :: "'v Response promise_state"
  http :: "'v Response promise_state XMLHttpRequest"
  uncaught :: "js_error list"

text \<open>
  \<^verbatim>\<open>new Promise(executor)\<close> runs the executor at once, handing it the two settling
  functions, and rejects the promise with the exception if the executor throws. An
  executor of this file works on one request object; it returns the object as it left it
  and the exception it threw, if any.
\<close>

definition new_Promise ::
  "(('a \<Rightarrow> 'a promise_state \<Rightarrow> 'a promise_state) \<Rightarrow>
    (js_error \<Rightarrow> 'a promise_state \<Rightarrow> 'a promise_state) \<Rightarrow>
    'a promise_state XMLHttpRequest \<times> js_error option)
   \<Rightarrow> 'a promise_state \<times> 'a promise_state XMLHttpRequest" where
  "new_Promise executor =
     (case executor resolve reject of
        (h, None) \<Rightarrow> (Pending, h)
      | (h, Some e) \<Rightarrow> (reject e Pending, h))"

text \<open>
  The events a request fires, one constructor for each handler attribute. \<open>Load s b\<close> is
  the \<^verbatim>\<open>load\<close> event of a completed response with status code \<open>s\<close> and body text \<open>b\<close>: by
  then the attributes \<^verbatim>\<open>status\<close> and \<^verbatim>\<open>response\<close> hold \<open>s\<close> and \<open>b\<close>. \<open>NetworkError\<close> is the
  \<^verbatim>\<open>error\<close> event. Only a request that was sent fires events. Dispatching an event runs
  the handler of its attribute, if there is one; an exception that leaves the handler is
  reported and goes no further.
\<close>

datatype xhr_event =
    ReadyStateChange
  | LoadStart
  | Progress
  | Abort
  | NetworkError
  | Load int string
  | Timeout
  | LoadEnd

definition run_handler ::
  "'v Response promise_state handler option \<Rightarrow> 'v call_state \<Rightarrow> 'v call_state" where
  "run_handler f c =
     (case f of
        None \<Rightarrow> c
      | Some g \<Rightarrow>
          (case g (xhr_attributes.truncate (http c)) (promise c) of
             Inl e \<Rightarrow> c\<lparr>uncaught := uncaught c @ [e]\<rparr>
           | Inr p \<Rightarrow> c\<lparr>promise := p\<rparr>))"

fun fire :: "xhr_event \<Rightarrow> 'v call_state \<Rightarrow> 'v call_state" where
  "fire ReadyStateChange c = run_handler (onreadystatechange (http c)) c"
| "fire LoadStart c = run_handler (onloadstart (http c)) c"
| "fire Progress c = run_handler (onprogress (http c)) c"
| "fire Abort c = run_handler (onabort (http c)) c"
| "fire NetworkError c = run_handler (onerror (http c)) c"
| "fire (Load s b) c =
     (let c' = c\<lparr>http := (http c)\<lparr>http_status := s, response := b\<rparr>\<rparr>
      in run_handler (onload (http c')) c')"
| "fire Timeout c = run_handler (ontimeout (http c)) c"
| "fire LoadEnd c = run_handler (onloadend (http c)) c"

definition dispatch :: "xhr_event \<Rightarrow> 'v call_state \<Rightarrow> 'v call_state" where
  "dispatch ev c = (if sent (http c) then fire ev c else c)"

fun dispatch_all :: "xhr_event list \<Rightarrow> 'v call_state \<Rightarrow> 'v call_state" where
  "dispatch_all [] c = c"
| "dispatch_all (ev # evs) c = dispatch_all evs (dispatch ev c)"

section \<open>The two functions of \<^verbatim>\<open>API.js\<close>\<close>

text \<open>
  The \<^verbatim>\<open>onload\<close> closure, the same text in both functions:
  \<^verbatim>\<open>resolve({ status: http.status, data: JSON.parse(http.response) })\<close>.
  The argument is evaluated first, so a throwing \<^verbatim>\<open>JSON.parse\<close> leaves the handler before
  \<^verbatim>\<open>resolve\<close> is called.
\<close>

definition onload_handler ::
  "'v browser \<Rightarrow> ('v Response \<Rightarrow> 'v Response promise_state \<Rightarrow> 'v Response promise_state)
   \<Rightarrow> 'v Response promise_state handler" where
  "onload_handler J resolve' h p =
     (case parse J (response h) of
        Inl e \<Rightarrow> Inl e
      | Inr v \<Rightarrow> Inr (resolve' \<lparr>status = http_status h, data = v\<rparr> p))"

text \<open>
  \<^verbatim>\<open>get\<close> and \<^verbatim>\<open>post\<close>, statement by statement. When \<^verbatim>\<open>open\<close> throws, the executor ends there:
  the statements after it do not run, and \<^verbatim>\<open>new Promise\<close> rejects the promise.
\<close>

definition get :: "'v browser \<Rightarrow> string \<Rightarrow> 'v call_state" where
  "get J url =
     (let (p, h) = new_Promise (\<lambda>resolve' reject'.
            let http = new_XMLHttpRequest;
                http = http\<lparr>onload := Some (onload_handler J resolve')\<rparr>
            in case xhr_open J ''GET'' url http of
                 Inl e \<Rightarrow> (http, Some e)
               | Inr http \<Rightarrow> (send None http, None))
      in \<lparr>promise = p, http = h, uncaught = []\<rparr>)"

definition post :: "'v browser \<Rightarrow> string \<Rightarrow> 'v \<Rightarrow> js_error + 'v call_state" where
  "post J url data' =
     (case stringify J data' of
        Inl e \<Rightarrow> Inl e
      | Inr data'' \<Rightarrow>
          (let (p, h) = new_Promise (\<lambda>resolve' reject'.
                 let http = new_XMLHttpRequest;
                     http = http\<lparr>onload := Some (onload_handler J resolve')\<rparr>
                 in case xhr_open J ''POST'' url http of
                      Inl e \<Rightarrow> (http, Some e)
                    | Inr http \<Rightarrow>
                        (let http = setRequestHeader ''Content-Type'' ''application/json'' http
                         in (send data'' http, None)))
           in Inr \<lparr>promise = p, http = h, uncaught = []\<rparr>))"

section \<open>A reference instance of the browser\<close>

text \<open>
  The properties below hold for every \<open>'v browser\<close>. To evaluate them on concrete texts,
  this section gives one instance: JavaScript values as a datatype, the two methods of
  \<^verbatim>\<open>JSON\<close> on the part of JSON that the examples use, and a URL parser on the URLs that the
  examples use.
  \<^item> Numbers are the integers that JavaScript represents exactly, below \<open>2\<^sup>5\<^sup>3\<close> in
    magnitude. A literal with a fraction or an exponent is outside that part, and
    \<open>parse_text\<close> does not accept it; a larger integer is outside it too, and is kept
    exact here where the browser rounds it and writes it with an exponent.
  \<^item> The properties of an object are a list of pairs, in the order of the text. (The
    browser puts the keys that are array indices first; the examples have none.)
  \<^item> Strings are HOL strings, so texts are ASCII, and a four-digit hexadecimal escape is
    read when it names an ASCII character; other escapes of that form are outside the
    part.
  Everything else follows the grammar of JSON and the results of the browser: white space
  between tokens, the three literals, the escapes of a string, no leading zeros, nothing
  after the value.
\<close>

datatype js_value =
    JUndefined
  | JNull
  | JBoolean bool
  | JNumber int
  | JBigInt int
  | JString string
  | JArray "js_value list"
  | JObject "(string \<times> js_value) list"

text \<open>
  \<^verbatim>\<open>JSON.stringify\<close>. A string is quoted with the escapes the browser writes. A \<^verbatim>\<open>BigInt\<close>
  anywhere in the value makes the call throw a \<^verbatim>\<open>TypeError\<close>. \<^verbatim>\<open>undefined\<close> is serialized to
  \<^verbatim>\<open>undefined\<close> (\<open>None\<close>) at the top, to \<^verbatim>\<open>null\<close> in an array, and a property holding it is
  left out.
\<close>

definition hex_digit :: "nat \<Rightarrow> char" where
  "hex_digit n = (if n < 10 then char_of (48 + n) else char_of (87 + n))"

definition quote_char :: "char \<Rightarrow> string" where
  "quote_char c =
     (if c = CHR 0x22 then [CHR 0x5C, CHR 0x22]
      else if c = CHR 0x5C then [CHR 0x5C, CHR 0x5C]
      else if c = CHR 0x08 then [CHR 0x5C, CHR ''b'']
      else if c = CHR 0x09 then [CHR 0x5C, CHR ''t'']
      else if c = CHR 0x0A then [CHR 0x5C, CHR ''n'']
      else if c = CHR 0x0C then [CHR 0x5C, CHR ''f'']
      else if c = CHR 0x0D then [CHR 0x5C, CHR ''r'']
      else if of_char c < (32::nat)
        then [CHR 0x5C, CHR ''u'', CHR ''0'', CHR ''0'',
              hex_digit (of_char c div 16), hex_digit (of_char c mod 16)]
      else [c])"

definition quote :: "string \<Rightarrow> string" where
  "quote s = [CHR 0x22] @ concat (map quote_char s) @ [CHR 0x22]"

fun digits :: "nat \<Rightarrow> string" where
  "digits n = (if n < 10 then [char_of (48 + n)] else digits (n div 10) @ [char_of (48 + n mod 10)])"

declare digits.simps [simp del]

definition number_text :: "int \<Rightarrow> string" where
  "number_text i = (if i < 0 then CHR ''-'' # digits (nat (- i)) else digits (nat i))"

fun join :: "string \<Rightarrow> string list \<Rightarrow> string" where
  "join sep [] = []"
| "join sep [x] = x"
| "join sep (x # y # ys) = x @ sep @ join sep (y # ys)"

fun serialize :: "js_value \<Rightarrow> js_error + string option"
  and serialize_elements :: "js_value list \<Rightarrow> js_error + string list"
  and serialize_properties :: "(string \<times> js_value) list \<Rightarrow> js_error + string list" where
  "serialize JUndefined = Inr None"
| "serialize JNull = Inr (Some ''null'')"
| "serialize (JBoolean b) = Inr (Some (if b then ''true'' else ''false''))"
| "serialize (JNumber i) = Inr (Some (number_text i))"
| "serialize (JBigInt i) = Inl TypeError"
| "serialize (JString s) = Inr (Some (quote s))"
| "serialize (JArray vs) =
     (case serialize_elements vs of
        Inl e \<Rightarrow> Inl e
      | Inr ts \<Rightarrow> Inr (Some (''['' @ join '','' ts @ '']'')))"
| "serialize (JObject kvs) =
     (case serialize_properties kvs of
        Inl e \<Rightarrow> Inl e
      | Inr ts \<Rightarrow> Inr (Some (''{'' @ join '','' ts @ ''}'')))"
| "serialize_elements [] = Inr []"
| "serialize_elements (v # vs) =
     (case serialize v of
        Inl e \<Rightarrow> Inl e
      | Inr t \<Rightarrow>
          (case serialize_elements vs of
             Inl e \<Rightarrow> Inl e
           | Inr ts \<Rightarrow> Inr ((case t of None \<Rightarrow> ''null'' | Some s \<Rightarrow> s) # ts)))"
| "serialize_properties [] = Inr []"
| "serialize_properties ((k, v) # kvs) =
     (case serialize v of
        Inl e \<Rightarrow> Inl e
      | Inr t \<Rightarrow>
          (case serialize_properties kvs of
             Inl e \<Rightarrow> Inl e
           | Inr ts \<Rightarrow> Inr ((case t of None \<Rightarrow> ts | Some s \<Rightarrow> (quote k @ '':'' @ s) # ts))))"

text \<open>
  \<^verbatim>\<open>JSON.parse\<close>, by recursive descent. Each function returns what it read and the rest of the
  text, or \<open>None\<close> where the browser throws a \<^verbatim>\<open>SyntaxError\<close>.
\<close>

definition is_ws :: "char \<Rightarrow> bool" where
  "is_ws c = (c = CHR '' '' \<or> c = CHR 0x09 \<or> c = CHR 0x0A \<or> c = CHR 0x0D)"

definition skip_ws :: "string \<Rightarrow> string" where
  "skip_ws = dropWhile is_ws"

definition is_digit :: "char \<Rightarrow> bool" where
  "is_digit c = (48 \<le> (of_char c :: nat) \<and> (of_char c :: nat) \<le> 57)"

definition hex_val :: "char \<Rightarrow> nat option" where
  "hex_val c =
     (let n = (of_char c :: nat)
      in if 48 \<le> n \<and> n \<le> 57 then Some (n - 48)
         else if 97 \<le> n \<and> n \<le> 102 then Some (n - 87)
         else if 65 \<le> n \<and> n \<le> 70 then Some (n - 55)
         else None)"

fun parse_digits :: "string \<Rightarrow> nat \<Rightarrow> nat \<times> string" where
  "parse_digits [] acc = (acc, [])"
| "parse_digits (c # cs) acc =
     (if is_digit c then parse_digits cs (10 * acc + (of_char c - 48)) else (acc, c # cs))"

definition parse_number :: "string \<Rightarrow> (js_value \<times> string) option" where
  "parse_number s =
     (let (neg, t) = (case s of [] \<Rightarrow> (False, s)
                      | c # cs \<Rightarrow> if c = CHR ''-'' then (True, cs) else (False, s))
      in case t of
           [] \<Rightarrow> None
         | c # cs \<Rightarrow>
             if \<not> is_digit c then None
             else
               (let (n, rest) = (if c = CHR ''0'' then (0, cs) else parse_digits t 0)
                in if rest \<noteq> [] \<and> hd rest \<in> set ''.eE'' then None
                   else Some (JNumber (if neg then - int n else int n), rest)))"

definition unescape :: "char \<Rightarrow> char option" where
  "unescape c =
     (if c = CHR 0x22 \<or> c = CHR 0x5C \<or> c = CHR ''/'' then Some c
      else if c = CHR ''b'' then Some (CHR 0x08)
      else if c = CHR ''t'' then Some (CHR 0x09)
      else if c = CHR ''n'' then Some (CHR 0x0A)
      else if c = CHR ''f'' then Some (CHR 0x0C)
      else if c = CHR ''r'' then Some (CHR 0x0D)
      else None)"

definition unescape_unicode :: "char \<Rightarrow> char \<Rightarrow> char \<Rightarrow> char \<Rightarrow> char option" where
  "unescape_unicode a b c d =
     (case (hex_val a, hex_val b, hex_val c, hex_val d) of
        (Some h3, Some h2, Some h1, Some h0) \<Rightarrow>
          if h3 = 0 \<and> h2 = 0 \<and> h1 < 8 then Some (char_of (16 * h1 + h0)) else None
      | _ \<Rightarrow> None)"

fun parse_chars :: "string \<Rightarrow> (string \<times> string) option" where
  "parse_chars [] = None"
| "parse_chars (c # cs) =
     (if c = CHR 0x22 then Some ([], cs)
      else if of_char c < (32::nat) then None
      else if c = CHR 0x5C then
        (case cs of
           [] \<Rightarrow> None
         | e # es \<Rightarrow>
             if e = CHR ''u'' then
               (case es of
                  a # b # x # y # r \<Rightarrow>
                    (case unescape_unicode a b x y of
                       None \<Rightarrow> None
                     | Some ch \<Rightarrow> map_option (\<lambda>(t, r'). (ch # t, r')) (parse_chars r))
                | _ \<Rightarrow> None)
             else
               (case unescape e of
                  None \<Rightarrow> None
                | Some ch \<Rightarrow> map_option (\<lambda>(t, r'). (ch # t, r')) (parse_chars es)))
      else map_option (\<lambda>(t, r'). (c # t, r')) (parse_chars cs))"

text \<open>
  Values, the elements of an array and the members of an object call each other; the first
  argument bounds the depth of these calls, and \<open>parse_text\<close> starts with twice the length
  of the text plus two. A key that occurs twice keeps its first place and its last value.
\<close>

fun define_property :: "string \<Rightarrow> js_value \<Rightarrow> (string \<times> js_value) list \<Rightarrow> (string \<times> js_value) list" where
  "define_property k v [] = [(k, v)]"
| "define_property k v ((k', v') # kvs) =
     (if k = k' then (k, v) # kvs else (k', v') # define_property k v kvs)"

definition literal :: "string \<Rightarrow> js_value \<Rightarrow> string \<Rightarrow> (js_value \<times> string) option" where
  "literal w v s = (if take (length w) s = w then Some (v, drop (length w) s) else None)"

fun parse_value :: "nat \<Rightarrow> string \<Rightarrow> (js_value \<times> string) option"
  and parse_elements :: "nat \<Rightarrow> string \<Rightarrow> (js_value list \<times> string) option"
  and parse_members :: "nat \<Rightarrow> string \<Rightarrow> ((string \<times> js_value) list \<times> string) option" where
  "parse_value 0 s = None"
| "parse_value (Suc n) [] = None"
| "parse_value (Suc n) (c # cs) =
     (if c = CHR ''n'' then literal ''null'' JNull (c # cs)
      else if c = CHR ''t'' then literal ''true'' (JBoolean True) (c # cs)
      else if c = CHR ''f'' then literal ''false'' (JBoolean False) (c # cs)
      else if c = CHR 0x22 then map_option (\<lambda>(t, r). (JString t, r)) (parse_chars cs)
      else if c = CHR ''['' then
        (case skip_ws cs of
           [] \<Rightarrow> None
         | d # ds \<Rightarrow>
             if d = CHR '']'' then Some (JArray [], ds)
             else map_option (\<lambda>(vs, r). (JArray vs, r)) (parse_elements n (d # ds)))
      else if c = CHR ''{'' then
        (case skip_ws cs of
           [] \<Rightarrow> None
         | d # ds \<Rightarrow>
             if d = CHR ''}'' then Some (JObject [], ds)
             else map_option (\<lambda>(kvs, r). (JObject (fold (\<lambda>(k, v). define_property k v) kvs []), r))
                    (parse_members n (d # ds)))
      else parse_number (c # cs))"
| "parse_elements 0 s = None"
| "parse_elements (Suc n) s =
     (case parse_value n s of
        None \<Rightarrow> None
      | Some (v, r) \<Rightarrow>
          (case skip_ws r of
             [] \<Rightarrow> None
           | d # ds \<Rightarrow>
               if d = CHR '','' then map_option (\<lambda>(vs, r'). (v # vs, r')) (parse_elements n (skip_ws ds))
               else if d = CHR '']'' then Some ([v], ds)
               else None))"
| "parse_members 0 s = None"
| "parse_members (Suc n) [] = None"
| "parse_members (Suc n) (c # cs) =
     (if c \<noteq> CHR 0x22 then None
      else
        (case parse_chars cs of
           None \<Rightarrow> None
         | Some (k, r) \<Rightarrow>
             (case skip_ws r of
                [] \<Rightarrow> None
              | d # ds \<Rightarrow>
                  if d \<noteq> CHR '':'' then None
                  else
                    (case parse_value n (skip_ws ds) of
                       None \<Rightarrow> None
                     | Some (v, r') \<Rightarrow>
                         (case skip_ws r' of
                            [] \<Rightarrow> None
                          | e # es \<Rightarrow>
                              if e = CHR '','' then
                                map_option (\<lambda>(kvs, r''). ((k, v) # kvs, r'')) (parse_members n (skip_ws es))
                              else if e = CHR ''}'' then Some ([(k, v)], es)
                              else None)))))"

definition parse_text :: "string \<Rightarrow> js_error + js_value" where
  "parse_text s =
     (case parse_value (2 * length s + 2) (skip_ws s) of
        None \<Rightarrow> Inl SyntaxError
      | Some (v, r) \<Rightarrow> if skip_ws r = [] then Inr v else Inl SyntaxError)"

text \<open>
  The URL parser, on absolute \<^verbatim>\<open>http\<close> and \<^verbatim>\<open>https\<close> URLs: a host name of letters and dots that
  starts with a letter, then nothing or a path of letters, digits and the characters
  \<^verbatim>\<open>/ - . _ ~\<close>. The browser parses every such URL. Other URLs are outside this part, and
  \<open>reference_canParse\<close> does not accept them; among them is \<^verbatim>\<open>http://[\<close>, which the browser
  does not parse either.
\<close>

definition is_letter :: "char \<Rightarrow> bool" where
  "is_letter c =
     (let n = (of_char c :: nat) in (65 \<le> n \<and> n \<le> 90) \<or> (97 \<le> n \<and> n \<le> 122))"

definition is_path_char :: "char \<Rightarrow> bool" where
  "is_path_char c = (is_letter c \<or> is_digit c \<or> c \<in> set ''/-._~'')"

definition after_scheme :: "string \<Rightarrow> string option" where
  "after_scheme u =
     (if take 8 u = ''https://'' then Some (drop 8 u)
      else if take 7 u = ''http://'' then Some (drop 7 u)
      else None)"

definition reference_canParse :: "string \<Rightarrow> bool" where
  "reference_canParse u =
     (case after_scheme u of
        None \<Rightarrow> False
      | Some r \<Rightarrow>
          (let host = takeWhile (\<lambda>c. c \<noteq> CHR ''/'') r;
               path = dropWhile (\<lambda>c. c \<noteq> CHR ''/'') r
           in host \<noteq> [] \<and> is_letter (hd host) \<and>
              list_all (\<lambda>c. is_letter c \<or> c = CHR ''.'') host \<and> list_all is_path_char path))"

definition reference_browser :: "js_value browser" where
  "reference_browser =
     \<lparr>parse = parse_text, stringify = serialize, URL_canParse = reference_canParse\<rparr>"

section \<open>The environment of a call\<close>

text \<open>
  The request that \<^verbatim>\<open>get\<close> and \<^verbatim>\<open>post\<close> leave when \<^verbatim>\<open>open\<close> accepted the URL: it is sent, and
  it has the \<^verbatim>\<open>onload\<close> closure and no other handler.
\<close>

definition wired :: "'v browser \<Rightarrow> 'v call_state \<Rightarrow> bool" where
  "wired J c =
     (sent (http c) \<and> onload (http c) = Some (onload_handler J resolve) \<and>
      onreadystatechange (http c) = None \<and> onloadstart (http c) = None \<and>
      onprogress (http c) = None \<and> onabort (http c) = None \<and> onerror (http c) = None \<and>
      ontimeout (http c) = None \<and> onloadend (http c) = None)"

definition is_load :: "xhr_event \<Rightarrow> bool" where
  "is_load ev = (case ev of Load s b \<Rightarrow> True | _ \<Rightarrow> False)"

definition is_rejected :: "'a promise_state \<Rightarrow> bool" where
  "is_rejected p = (case p of Rejected e \<Rightarrow> True | _ \<Rightarrow> False)"

text \<open>
  The backend of the round-trip property is a server, outside the repository. It is taken
  as the property describes it, a pass-through echo: it stores the body of a POST under
  its URL and returns the stored body on a GET of that URL. It answers 200 on success and,
  as the comments of \<^verbatim>\<open>API.js\<close> say of the real backend, 400 to a bad request and the body
  \<^verbatim>\<open>null\<close> for a user it does not know.
\<close>

type_synonym backend = "string \<rightharpoonup> string"

definition echo_backend :: "backend \<Rightarrow> 'p XMLHttpRequest \<Rightarrow> backend \<times> xhr_event" where
  "echo_backend store h =
     (if req_method h = ''POST'' then
        (case req_body h of
           None \<Rightarrow> (store, Load 400 ''null'')
         | Some b \<Rightarrow> (store(req_url h \<mapsto> b), Load 200 b))
      else
        (case store (req_url h) of
           None \<Rightarrow> (store, Load 404 ''null'')
         | Some b \<Rightarrow> (store, Load 200 b)))"

text \<open>
  One exchange: the backend answers the request of a call, if it was sent, and the answer
  is delivered to the call.
\<close>

definition exchange :: "backend \<Rightarrow> 'v call_state \<Rightarrow> backend \<times> 'v call_state" where
  "exchange store c =
     (if sent (http c) then
        (let (store', ev) = echo_backend store (http c) in (store', dispatch ev c))
      else (store, c))"

text \<open>
  The round trip: \<^verbatim>\<open>post(url, X)\<close>, its completion, then \<^verbatim>\<open>get(url)\<close> and its completion,
  against the echo backend. The result is the promise that \<^verbatim>\<open>get\<close> returned.
\<close>

definition round_trip ::
  "'v browser \<Rightarrow> backend \<Rightarrow> string \<Rightarrow> 'v \<Rightarrow> js_error + 'v Response promise_state" where
  "round_trip J store url X =
     (case post J url X of
        Inl e \<Rightarrow> Inl e
      | Inr c1 \<Rightarrow>
          (let (store1, c1') = exchange store c1;
               (store2, c2') = exchange store1 (get J url)
           in Inr (promise c2')))"

text \<open>
  A page that makes several calls. Its state is the list of the calls made so far, oldest
  first: the file has no variable outside its two functions, so the calls share nothing.
  A step makes a new call or delivers an event to the request of the \<open>i\<close>-th call.
\<close>

datatype 'v action = CallGet string | CallPost string 'v | Deliver nat xhr_event

fun step :: "'v browser \<Rightarrow> 'v call_state list \<Rightarrow> 'v action \<Rightarrow> 'v call_state list" where
  "step J w (CallGet url) = w @ [get J url]"
| "step J w (CallPost url d) = (case post J url d of Inl e \<Rightarrow> w | Inr c \<Rightarrow> w @ [c])"
| "step J w (Deliver i ev) = (if i < length w then w[i := dispatch ev (w ! i)] else w)"

definition run :: "'v browser \<Rightarrow> 'v action list \<Rightarrow> 'v call_state list" where
  "run J acts = foldl (step J) [] acts"

definition delivers_to :: "nat \<Rightarrow> 'v action \<Rightarrow> bool" where
  "delivers_to k a = (case a of Deliver i ev \<Rightarrow> i = k | _ \<Rightarrow> False)"

section \<open>What a call sets up, and what an event does to it\<close>

lemmas api_defs =
  get_def post_def new_Promise_def new_XMLHttpRequest_def xhr_open_def setRequestHeader_def
  send_def

lemma get_initial:
  assumes "URL_canParse J url"
  shows "promise (get J url) = Pending" "uncaught (get J url) = []" "wired J (get J url)"
  using assms by (simp_all add: api_defs wired_def Let_def)

lemma get_unparsable_url:
  assumes "\<not> URL_canParse J url"
  shows "promise (get J url) = Rejected DOMException_SyntaxError" "\<not> sent (http (get J url))"
  using assms by (simp_all add: api_defs reject_def Let_def)

lemma post_initial:
  assumes "post J url d = Inr c" and "URL_canParse J url"
  shows "promise c = Pending" "uncaught c = []" "wired J c"
  using assms by (auto simp: api_defs wired_def Let_def split: sum.splits)

lemma post_unparsable_url:
  assumes "post J url d = Inr c" and "\<not> URL_canParse J url"
  shows "promise c = Rejected DOMException_SyntaxError" "\<not> sent (http c)"
  using assms by (auto simp: api_defs reject_def Let_def split: sum.splits)

lemma post_returns:
  "stringify J d = Inr t \<Longrightarrow> \<exists>c. post J url d = Inr c"
  by (simp add: post_def split: prod.splits)

lemma dispatch_not_sent: "\<not> sent (http c) \<Longrightarrow> dispatch ev c = c"
  by (simp add: dispatch_def)

declare fire.simps [simp del]

lemma dispatch_Load:
  assumes "wired J c"
  shows "promise (dispatch (Load s b) c) =
           (case parse J b of Inl e \<Rightarrow> promise c
            | Inr v \<Rightarrow> resolve \<lparr>status = s, data = v\<rparr> (promise c))"
    and "uncaught (dispatch (Load s b) c) =
           (case parse J b of Inl e \<Rightarrow> uncaught c @ [e] | Inr v \<Rightarrow> uncaught c)"
    and "wired J (dispatch (Load s b) c)"
  using assms
  by (auto simp: dispatch_def fire.simps wired_def run_handler_def onload_handler_def
      xhr_attributes.truncate_def Let_def split: sum.splits)

lemma dispatch_other:
  assumes "wired J c" and "\<not> is_load ev"
  shows "dispatch ev c = c"
  using assms
  by (cases ev) (simp_all add: dispatch_def fire.simps wired_def run_handler_def is_load_def)

lemma wired_dispatch: "wired J c \<Longrightarrow> wired J (dispatch ev c)"
  by (cases "is_load ev")
    (auto simp: dispatch_Load(3) dispatch_other is_load_def split: xhr_event.splits)

lemma wired_dispatch_all: "wired J c \<Longrightarrow> wired J (dispatch_all evs c)"
  by (induction evs arbitrary: c) (simp_all add: wired_dispatch)

lemma dispatch_all_no_load:
  "wired J c \<Longrightarrow> \<forall>ev \<in> set evs. \<not> is_load ev \<Longrightarrow> dispatch_all evs c = c"
  by (induction evs arbitrary: c) (simp_all add: dispatch_other)

lemma dispatch_same:
  assumes "wired J c1" and "wired J c2"
    and "promise c1 = promise c2" and "uncaught c1 = uncaught c2"
  shows "promise (dispatch ev c1) = promise (dispatch ev c2)"
    and "uncaught (dispatch ev c1) = uncaught (dispatch ev c2)"
proof -
  show "promise (dispatch ev c1) = promise (dispatch ev c2)"
  proof (cases "is_load ev")
    case True
    then obtain s b where "ev = Load s b"
      by (cases ev) (simp_all add: is_load_def)
    with assms show ?thesis
      by (simp add: dispatch_Load(1) split: sum.splits)
  next
    case False
    with assms show ?thesis
      by (simp add: dispatch_other)
  qed
  show "uncaught (dispatch ev c1) = uncaught (dispatch ev c2)"
  proof (cases "is_load ev")
    case True
    then obtain s b where "ev = Load s b"
      by (cases ev) (simp_all add: is_load_def)
    with assms show ?thesis
      by (simp add: dispatch_Load(2) split: sum.splits)
  next
    case False
    with assms show ?thesis
      by (simp add: dispatch_other)
  qed
qed

lemma dispatch_all_same:
  "wired J c1 \<Longrightarrow> wired J c2 \<Longrightarrow> promise c1 = promise c2 \<Longrightarrow> uncaught c1 = uncaught c2 \<Longrightarrow>
   promise (dispatch_all evs c1) = promise (dispatch_all evs c2) \<and>
   uncaught (dispatch_all evs c1) = uncaught (dispatch_all evs c2)"
proof (induction evs arbitrary: c1 c2)
  case Nil
  then show ?case by simp
next
  case (Cons ev evs)
  note same = dispatch_same [OF Cons.prems, of ev]
  have w1: "wired J (dispatch ev c1)" and w2: "wired J (dispatch ev c2)"
    using Cons.prems(1,2) by (simp_all add: wired_dispatch)
  show ?case
    using Cons.IH [OF w1 w2 same] by simp
qed

lemma reference_parse_alice:
  \<open>parse reference_browser ''{"id":"alice","score":5}'' =
     Inr (JObject [(''id'', JString ''alice''), (''score'', JNumber 5)])\<close>
  by code_simp

lemma reference_parse_error:
  \<open>parse reference_browser ''{"Error":"bad score"}'' =
     Inr (JObject [(''Error'', JString ''bad score'')])\<close>
  by code_simp

lemma reference_parse_html:
  \<open>parse reference_browser ''<html>'' = Inl SyntaxError\<close>
  by code_simp

lemma reference_stringify_score:
  \<open>stringify reference_browser (JObject [(''score'', JNumber 5)]) = Inr (Some ''{"score":5}'')\<close>
  by code_simp

lemma reference_parse_score:
  \<open>parse reference_browser ''{"score":5}'' = Inr (JObject [(''score'', JNumber 5)])\<close>
  by code_simp

lemma reference_url_alice: "URL_canParse reference_browser ''https://example.com/alice''"
  by code_simp

lemma reference_url_bob: "URL_canParse reference_browser ''https://example.com/bob''"
  by code_simp

lemma reference_url_bracket: "\<not> URL_canParse reference_browser ''http://[''"
  by code_simp


lemma post_call:
  assumes "stringify J d = Inr t" and "URL_canParse J url"
  obtains c where "post J url d = Inr c" and "promise c = Pending" and "uncaught c = []"
    and "wired J c"
proof -
  from post_returns [OF assms(1), of url] obtain c where c: "post J url d = Inr c" ..
  from c post_initial [OF c assms(2)] show ?thesis
    by (rule that)
qed

lemma post_sends_body:
  assumes "stringify J d = Inr t" and "URL_canParse J url"
  shows "\<exists>c. post J url d = Inr c \<and> sent (http c) \<and> req_method (http c) = ''POST'' \<and>
             req_url (http c) = url \<and> req_body (http c) = t"
  using assms by (simp add: api_defs Let_def)

lemma get_sends:
  assumes "URL_canParse J url"
  shows "sent (http (get J url))" "req_method (http (get J url)) = ''GET''"
    "req_url (http (get J url)) = url"
  using assms by (simp_all add: api_defs Let_def)

lemma load_outcome:
  assumes "wired J c" and "promise c = Pending" and "uncaught c = []"
  shows "promise (dispatch (Load s b) c) =
           (case parse J b of Inl e \<Rightarrow> Pending | Inr v \<Rightarrow> Fulfilled \<lparr>status = s, data = v\<rparr>)"
    and "uncaught (dispatch (Load s b) c) = (case parse J b of Inl e \<Rightarrow> [e] | Inr v \<Rightarrow> [])"
  using assms by (simp_all add: dispatch_Load resolve_def split: sum.splits)

lemma get_load:
  assumes "URL_canParse J url"
  shows "promise (dispatch (Load s b) (get J url)) =
           (case parse J b of Inl e \<Rightarrow> Pending | Inr v \<Rightarrow> Fulfilled \<lparr>status = s, data = v\<rparr>)"
    and "uncaught (dispatch (Load s b) (get J url)) =
           (case parse J b of Inl e \<Rightarrow> [e] | Inr v \<Rightarrow> [])"
  by (rule load_outcome [OF get_initial(3) get_initial(1) get_initial(2), OF assms assms assms])+

lemma step_keeps:
  assumes "k < length w" and "\<not> delivers_to k a"
  shows "k < length (step J w a)" and "step J w a ! k = w ! k"
  using assms
  by (cases a; auto simp: delivers_to_def nth_append split: sum.splits)+

lemma steps_keep:
  "k < length w \<Longrightarrow> \<forall>a \<in> set acts. \<not> delivers_to k a \<Longrightarrow>
   k < length (foldl (step J) w acts) \<and> foldl (step J) w acts ! k = w ! k"
proof (induction acts arbitrary: w)
  case Nil
  then show ?case by simp
next
  case (Cons a acts)
  from Cons.prems have a: "\<not> delivers_to k a" and rest: "\<forall>a \<in> set acts. \<not> delivers_to k a"
    by simp_all
  note kept = step_keeps [OF Cons.prems(1) a, of J]
  from Cons.IH [OF kept(1) rest] kept(2) show ?case
    by simp
qed

lemma run_new_call:
  assumes "step J (run J before) a = run J before @ [c]"
    and "\<forall>a \<in> set between. \<not> delivers_to (length (run J before)) a"
  shows "run J (before @ a # between @ [Deliver (length (run J before)) ev])
           ! length (run J before) = dispatch ev c"
proof -
  let ?k = "length (run J before)"
  let ?w = "run J before @ [c]"
  have k: "?k < length ?w" by simp
  from steps_keep [OF k assms(2), of J]
  have kept: "?k < length (foldl (step J) ?w between)" "foldl (step J) ?w between ! ?k = c"
    by simp_all
  have "run J (before @ a # between @ [Deliver ?k ev]) =
          step J (foldl (step J) ?w between) (Deliver ?k ev)"
    using assms(1) by (simp add: run_def)
  with kept show ?thesis
    by simp
qed

section \<open>The claims of the specification\<close>

text \<open>
  A response completes only for a request that was sent, that is, for a URL that \<^verbatim>\<open>open\<close>
  accepted. The claims about completions and events are stated for such URLs.
\<close>

text \<open>
  \<^bold>\<open>C1.\<close> When a response completes and its body parses as JSON, the promise returned by
  \<^verbatim>\<open>get(url)\<close> is resolved with the record whose \<open>status\<close> is the status code of the response
  and whose \<open>data\<close> is the parsed body. For status 200 and the body
  \<^verbatim>\<open>{"id":"alice","score":5}\<close> that record is \<^verbatim>\<open>{status:200, data:{id:"alice", score:5}}\<close>.
\<close>

theorem get_resolves_with_status_and_parsed_body:
  "URL_canParse J url \<Longrightarrow> parse J b = Inr v \<Longrightarrow>
   promise (dispatch (Load s b) (get J url)) = Fulfilled \<lparr>status = s, data = v\<rparr>"
  by (simp add: get_load(1))

theorem get_resolves_alice:
  \<open>parse reference_browser ''{"id":"alice","score":5}'' =
     Inr (JObject [(''id'', JString ''alice''), (''score'', JNumber 5)]) \<and>
   promise (dispatch (Load 200 ''{"id":"alice","score":5}'')
              (get reference_browser ''https://example.com/alice'')) =
     Fulfilled \<lparr>status = 200,
                data = JObject [(''id'', JString ''alice''), (''score'', JNumber 5)]\<rparr>\<close>
  using reference_parse_alice
    get_resolves_with_status_and_parsed_body [OF reference_url_alice reference_parse_alice]
  by (rule conjI)

text \<open>
  \<^bold>\<open>C2.\<close> When a response completes with a body that parses as JSON, the promises of \<^verbatim>\<open>get\<close>
  and of \<^verbatim>\<open>post\<close> are resolved, whatever the status code, and no exception is raised. For
  status 400 and the body \<^verbatim>\<open>{"Error":"bad score"}\<close> both resolve with
  \<^verbatim>\<open>{status:400, data:{Error:"bad score"}}\<close>.
\<close>

theorem json_completion_resolves_get_and_post:
  assumes "parse J b = Inr v" and "stringify J d = Inr t"
    and "URL_canParse J url" and "URL_canParse J url'"
  shows "promise (dispatch (Load s b) (get J url)) = Fulfilled \<lparr>status = s, data = v\<rparr> \<and>
         uncaught (dispatch (Load s b) (get J url)) = [] \<and>
         (\<exists>c. post J url' d = Inr c \<and>
              promise (dispatch (Load s b) c) = Fulfilled \<lparr>status = s, data = v\<rparr> \<and>
              uncaught (dispatch (Load s b) c) = [])"
proof -
  from assms(2,4) obtain c where c: "post J url' d = Inr c"
    and init: "wired J c" "promise c = Pending" "uncaught c = []"
    by (rule post_call)
  from assms(1) have "promise (dispatch (Load s b) c) = Fulfilled \<lparr>status = s, data = v\<rparr>"
    and "uncaught (dispatch (Load s b) c) = []"
    by (simp_all add: load_outcome [OF init])
  with c assms(1,3) show ?thesis
    by (simp add: get_load)
qed

theorem bad_request_resolves_get_and_post:
  \<open>promise (dispatch (Load 400 ''{"Error":"bad score"}'')
              (get reference_browser ''https://example.com/alice'')) =
     Fulfilled \<lparr>status = 400, data = JObject [(''Error'', JString ''bad score'')]\<rparr> \<and>
   uncaught (dispatch (Load 400 ''{"Error":"bad score"}'')
              (get reference_browser ''https://example.com/alice'')) = [] \<and>
   (\<exists>c. post reference_browser ''https://example.com/alice'' (JObject [(''score'', JNumber 5)]) =
          Inr c \<and>
        promise (dispatch (Load 400 ''{"Error":"bad score"}'') c) =
          Fulfilled \<lparr>status = 400, data = JObject [(''Error'', JString ''bad score'')]\<rparr> \<and>
        uncaught (dispatch (Load 400 ''{"Error":"bad score"}'') c) = [])\<close>
  by (rule json_completion_resolves_get_and_post
      [OF reference_parse_error reference_stringify_score reference_url_alice
        reference_url_alice])

text \<open>
  \<^bold>\<open>C3\<close> says that a completed response whose body is not valid JSON makes the promise of
  \<^verbatim>\<open>get\<close> (and of \<^verbatim>\<open>post\<close>) fail, and that this parse failure is the only error surfaced
  locally. Neither holds. \<^verbatim>\<open>JSON.parse\<close> throws inside the \<^verbatim>\<open>onload\<close> handler, which is an
  event listener and not the executor of the promise, so nothing calls \<^verbatim>\<open>reject\<close>: after a
  response with the body \<^verbatim>\<open><html>\<close> the promise of \<^verbatim>\<open>get\<close> is pending, not rejected. And two
  other errors are surfaced locally: \<^verbatim>\<open>post\<close> throws the \<^verbatim>\<open>TypeError\<close> of \<^verbatim>\<open>JSON.stringify\<close> on a
  \<^verbatim>\<open>BigInt\<close>, and \<^verbatim>\<open>get\<close> on the URL \<^verbatim>\<open>http://[\<close> returns a promise rejected with the exception
  of \<^verbatim>\<open>open\<close>.
\<close>

theorem invalid_body_not_rejected_and_other_errors:
  \<open>parse reference_browser ''<html>'' = Inl SyntaxError \<and>
   \<not> is_rejected (promise (dispatch (Load 200 ''<html>'')
                      (get reference_browser ''https://example.com/alice''))) \<and>
   promise (dispatch (Load 200 ''<html>'') (get reference_browser ''https://example.com/alice'')) =
     Pending \<and>
   post reference_browser ''https://example.com/alice'' (JBigInt 1) = Inl TypeError \<and>
   promise (get reference_browser ''http://['') = Rejected DOMException_SyntaxError\<close>
proof -
  have "stringify reference_browser (JBigInt 1) = Inl TypeError"
    by (simp add: reference_browser_def)
  then have thrown: "post reference_browser ''https://example.com/alice'' (JBigInt 1) =
                       Inl TypeError"
    by (simp add: post_def)
  have pending: "promise (dispatch (Load 200 ''<html>'')
                   (get reference_browser ''https://example.com/alice'')) = Pending"
    by (simp add: get_load(1) [OF reference_url_alice] reference_parse_html)
  then have "\<not> is_rejected (promise (dispatch (Load 200 ''<html>'')
                   (get reference_browser ''https://example.com/alice'')))"
    by (simp add: is_rejected_def)
  with reference_parse_html pending thrown get_unparsable_url(1) [OF reference_url_bracket]
  show ?thesis
    by simp
qed

text \<open>
  \<^bold>\<open>C3, amended.\<close> When a response completes with a body that \<^verbatim>\<open>JSON.parse\<close> rejects with
  an error \<open>e\<close>, the promise returned by \<^verbatim>\<open>get\<close> (and likewise by \<^verbatim>\<open>post\<close>) does not fail and
  does not resolve: it stays pending, and \<open>e\<close> leaves the \<^verbatim>\<open>onload\<close> handler as its one
  uncaught exception. That parse failure is the only error that the handling of a
  response surfaces: a body that parses raises none.
\<close>

theorem invalid_body_leaves_promise_pending:
  assumes "parse J b = Inl e" and "stringify J d = Inr t"
    and "URL_canParse J url" and "URL_canParse J url'"
  shows "promise (dispatch (Load s b) (get J url)) = Pending \<and>
         uncaught (dispatch (Load s b) (get J url)) = [e] \<and>
         (\<exists>c. post J url' d = Inr c \<and>
              promise (dispatch (Load s b) c) = Pending \<and>
              uncaught (dispatch (Load s b) c) = [e] \<and>
              (\<forall>b'. uncaught (dispatch (Load s b') c) =
                      (case parse J b' of Inl x \<Rightarrow> [x] | Inr v \<Rightarrow> []))) \<and>
         (\<forall>b'. uncaught (dispatch (Load s b') (get J url)) =
                 (case parse J b' of Inl x \<Rightarrow> [x] | Inr v \<Rightarrow> []))"
proof -
  from assms(2,4) obtain c where c: "post J url' d = Inr c"
    and init: "wired J c" "promise c = Pending" "uncaught c = []"
    by (rule post_call)
  have get_pending: "promise (dispatch (Load s b) (get J url)) = Pending"
    and get_uncaught: "uncaught (dispatch (Load s b) (get J url)) = [e]"
    using assms(1,3) by (simp_all add: get_load)
  have post_pending: "promise (dispatch (Load s b) c) = Pending"
    and post_uncaught: "uncaught (dispatch (Load s b) c) = [e]"
    using assms(1) by (simp_all add: load_outcome [OF init])
  have get_only: "uncaught (dispatch (Load s b') (get J url)) =
                    (case parse J b' of Inl x \<Rightarrow> [x] | Inr v \<Rightarrow> [])" for b'
    by (rule get_load(2) [OF assms(3)])
  have post_only: "uncaught (dispatch (Load s b') c) =
                     (case parse J b' of Inl x \<Rightarrow> [x] | Inr v \<Rightarrow> [])" for b'
    by (rule load_outcome(2) [OF init])
  from c get_pending get_uncaught post_pending post_uncaught get_only post_only
  show ?thesis
    by blast
qed

theorem invalid_body_html_witness:
  \<open>promise (dispatch (Load 200 ''<html>'') (get reference_browser ''https://example.com/alice'')) =
     Pending \<and>
   uncaught (dispatch (Load 200 ''<html>'') (get reference_browser ''https://example.com/alice'')) =
     [SyntaxError] \<and>
   (\<exists>c. post reference_browser ''https://example.com/alice'' (JObject [(''score'', JNumber 5)]) =
          Inr c \<and>
        promise (dispatch (Load 200 ''<html>'') c) = Pending \<and>
        uncaught (dispatch (Load 200 ''<html>'') c) = [SyntaxError])\<close>
  using invalid_body_leaves_promise_pending
    [OF reference_parse_html reference_stringify_score reference_url_alice reference_url_alice,
      of 200]
  by blast

text \<open>
  \<^bold>\<open>C4.\<close> For every call \<^verbatim>\<open>post(url, data)\<close> that sends a request (\<^verbatim>\<open>JSON.stringify\<close> serializes
  the data and \<^verbatim>\<open>open\<close> accepts the URL), the request is a POST to \<open>url\<close> whose body is
  exactly the serialization and whose only header set by the file is
  \<^verbatim>\<open>Content-Type: application/json\<close>. For \<^verbatim>\<open>post(url, {score:5})\<close> the body is the text
  \<^verbatim>\<open>{"score":5}\<close>.
\<close>

theorem post_sends_serialized_body_with_content_type:
  assumes "stringify J d = Inr t" and "URL_canParse J url"
  shows "\<exists>c. post J url d = Inr c \<and> sent (http c) \<and> req_method (http c) = ''POST'' \<and>
             req_url (http c) = url \<and> req_body (http c) = t \<and>
             req_headers (http c) = [(''Content-Type'', ''application/json'')]"
  using assms by (simp add: api_defs Let_def)

theorem post_sends_score_witness:
  \<open>\<exists>c. post reference_browser ''https://example.com/alice'' (JObject [(''score'', JNumber 5)]) =
          Inr c \<and>
        sent (http c) \<and> req_method (http c) = ''POST'' \<and>
        req_url (http c) = ''https://example.com/alice'' \<and>
        req_body (http c) = Some ''{"score":5}'' \<and>
        req_headers (http c) = [(''Content-Type'', ''application/json'')]\<close>
  by (rule post_sends_serialized_body_with_content_type
      [OF reference_stringify_score reference_url_alice])

text \<open>
  \<^bold>\<open>C5.\<close> Whatever integer \<open>s\<close> the response carries as its status code, the resolved
  record has \<open>status = s\<close>: when the body parses, \<^verbatim>\<open>get\<close> and \<^verbatim>\<open>post\<close> resolve with status \<open>s\<close>,
  and the outcomes for two status codes \<open>s\<close> and \<open>s'\<close> differ in the status field and in
  nothing else.
\<close>

theorem status_code_passed_through:
  assumes "parse J b = Inr v" and "stringify J d = Inr t"
    and "URL_canParse J url" and "URL_canParse J url'"
  shows "(\<exists>r. promise (dispatch (Load s b) (get J url)) = Fulfilled r \<and> status r = s) \<and>
         promise (dispatch (Load s b) (get J url)) =
           (case promise (dispatch (Load s' b) (get J url)) of
              Fulfilled r \<Rightarrow> Fulfilled (r\<lparr>status := s\<rparr>) | p \<Rightarrow> p) \<and>
         (\<exists>c r. post J url' d = Inr c \<and>
                promise (dispatch (Load s b) c) = Fulfilled r \<and> status r = s \<and>
                promise (dispatch (Load s b) c) =
                  (case promise (dispatch (Load s' b) c) of
                     Fulfilled r \<Rightarrow> Fulfilled (r\<lparr>status := s\<rparr>) | p \<Rightarrow> p))"
proof -
  from assms(2,4) obtain c where c: "post J url' d = Inr c"
    and init: "wired J c" "promise c = Pending" "uncaught c = []"
    by (rule post_call)
  have "promise (dispatch (Load s b) c) = Fulfilled \<lparr>status = s, data = v\<rparr>"
    and "promise (dispatch (Load s' b) c) = Fulfilled \<lparr>status = s', data = v\<rparr>"
    using assms(1) by (simp_all add: load_outcome(1) [OF init])
  with c assms(1,3) show ?thesis
    by (simp add: get_load(1))
qed

theorem status_999_witness:
  \<open>(\<exists>r. promise (dispatch (Load 999 ''{"Error":"bad score"}'')
                 (get reference_browser ''https://example.com/alice'')) = Fulfilled r \<and>
        status r = 999) \<and>
   (\<exists>c r. post reference_browser ''https://example.com/alice'' (JObject [(''score'', JNumber 5)]) =
            Inr c \<and>
          promise (dispatch (Load 999 ''{"Error":"bad score"}'') c) = Fulfilled r \<and>
          status r = 999)\<close>
  using status_code_passed_through
    [OF reference_parse_error reference_stringify_score reference_url_alice reference_url_alice,
      of 999 200]
  by blast

text \<open>
  \<^bold>\<open>C6.\<close> \<^verbatim>\<open>post\<close> handles the response as \<^verbatim>\<open>get\<close> does. After the same completion (the same
  status code \<open>s\<close> and body text \<open>b\<close>) the promise of \<^verbatim>\<open>post(url, data)\<close> and the promise of
  \<^verbatim>\<open>get(url')\<close> are settled with the same value, the record of \<open>s\<close> and the parsed body; when
  the body does not parse, both stay pending with the same uncaught exception. After any
  sequence of events the two promises are in the same state and the same exceptions have
  escaped.
\<close>

theorem post_settles_as_get:
  assumes "stringify J d = Inr t" and "URL_canParse J url" and "URL_canParse J url'"
  shows "\<exists>c. post J url d = Inr c \<and>
             promise (dispatch (Load s b) c) =
               (case parse J b of
                  Inl e \<Rightarrow> Pending | Inr v \<Rightarrow> Fulfilled \<lparr>status = s, data = v\<rparr>) \<and>
             promise (dispatch (Load s b) (get J url')) =
               (case parse J b of
                  Inl e \<Rightarrow> Pending | Inr v \<Rightarrow> Fulfilled \<lparr>status = s, data = v\<rparr>) \<and>
             uncaught (dispatch (Load s b) c) = (case parse J b of Inl e \<Rightarrow> [e] | Inr v \<Rightarrow> []) \<and>
             uncaught (dispatch (Load s b) (get J url')) =
               (case parse J b of Inl e \<Rightarrow> [e] | Inr v \<Rightarrow> []) \<and>
             (\<forall>evs. promise (dispatch_all evs c) = promise (dispatch_all evs (get J url')) \<and>
                    uncaught (dispatch_all evs c) = uncaught (dispatch_all evs (get J url')))"
proof -
  from assms(1,2) obtain c where c: "post J url d = Inr c"
    and init: "wired J c" "promise c = Pending" "uncaught c = []"
    by (rule post_call)
  note get_init = get_initial [OF assms(3)]
  have same: "promise c = promise (get J url')" "uncaught c = uncaught (get J url')"
    by (simp_all add: init get_init)
  have "promise (dispatch_all evs c) = promise (dispatch_all evs (get J url')) \<and>
        uncaught (dispatch_all evs c) = uncaught (dispatch_all evs (get J url'))" for evs
    by (rule dispatch_all_same [OF init(1) get_init(3) same])
  with c load_outcome [OF init, of s b] get_load [OF assms(3), of s b] show ?thesis
    by blast
qed

theorem post_settles_as_get_witness:
  \<open>\<exists>c. post reference_browser ''https://example.com/alice'' (JObject [(''score'', JNumber 5)]) =
          Inr c \<and>
        promise (dispatch (Load 201 ''{"id":"alice","score":5}'') c) =
          Fulfilled \<lparr>status = 201,
                     data = JObject [(''id'', JString ''alice''), (''score'', JNumber 5)]\<rparr> \<and>
        promise (dispatch (Load 201 ''{"id":"alice","score":5}'')
                   (get reference_browser ''https://example.com/bob'')) =
          Fulfilled \<lparr>status = 201,
                     data = JObject [(''id'', JString ''alice''), (''score'', JNumber 5)]\<rparr>\<close>
  using post_settles_as_get
    [OF reference_stringify_score reference_url_alice reference_url_bob,
      of 201 \<open>''{"id":"alice","score":5}''\<close>]
  by (auto simp: reference_parse_alice)

text \<open>
  \<^bold>\<open>C7.\<close> When the request was sent and the network fails, so that the request fires
  \<^verbatim>\<open>error\<close>, \<^verbatim>\<open>timeout\<close>, \<^verbatim>\<open>abort\<close> or any other events and never a \<^verbatim>\<open>load\<close> event, the promise
  of \<^verbatim>\<open>get\<close> and the promise of \<^verbatim>\<open>post\<close> are pending after every such sequence of events:
  they are never resolved and never rejected.
\<close>

theorem network_failure_never_settles:
  assumes "stringify J d = Inr t" and "URL_canParse J url" and "URL_canParse J url'"
    and "\<forall>ev \<in> set evs. \<not> is_load ev"
  shows "promise (dispatch_all evs (get J url)) = Pending \<and>
         (\<exists>c. post J url' d = Inr c \<and> promise (dispatch_all evs c) = Pending)"
proof -
  from assms(1,3) obtain c where c: "post J url' d = Inr c"
    and init: "wired J c" "promise c = Pending" "uncaught c = []"
    by (rule post_call)
  note get_init = get_initial [OF assms(2)]
  have "dispatch_all evs (get J url) = get J url"
    by (rule dispatch_all_no_load [OF get_init(3) assms(4)])
  moreover have "dispatch_all evs c = c"
    by (rule dispatch_all_no_load [OF init(1) assms(4)])
  ultimately show ?thesis
    using c init(2) by (simp add: get_init(1))
qed

theorem network_failure_witness:
  \<open>promise (dispatch_all [LoadStart, ReadyStateChange, NetworkError, LoadEnd]
              (get reference_browser ''https://example.com/alice'')) = Pending \<and>
   (\<exists>c. post reference_browser ''https://example.com/alice'' (JObject [(''score'', JNumber 5)]) =
          Inr c \<and>
        promise (dispatch_all [LoadStart, ReadyStateChange, NetworkError, LoadEnd] c) = Pending)\<close>
proof -
  have "\<forall>ev \<in> set [LoadStart, ReadyStateChange, NetworkError, LoadEnd]. \<not> is_load ev"
    by (simp add: is_load_def)
  from network_failure_never_settles
    [OF reference_stringify_score reference_url_alice reference_url_alice this]
  show ?thesis .
qed

text \<open>
  \<^bold>\<open>C8.\<close> Round trip: against a backend that stores the posted body and returns it on GET,
  \<^verbatim>\<open>post(url, X)\<close> followed by \<^verbatim>\<open>get(url)\<close> resolves with the data that \<^verbatim>\<open>JSON.parse\<close> reads
  from the text that \<^verbatim>\<open>JSON.stringify\<close> wrote for \<open>X\<close>.
\<close>

theorem post_then_get_round_trip:
  assumes "stringify J X = Inr (Some t)" and "parse J t = Inr v" and "URL_canParse J url"
  shows "round_trip J store url X = Inr (Fulfilled \<lparr>status = 200, data = v\<rparr>)"
proof -
  from post_sends_body [OF assms(1,3)] obtain c
    where c: "post J url X = Inr c" and req: "sent (http c)" "req_method (http c) = ''POST''"
      "req_url (http c) = url" "req_body (http c) = Some t"
    by blast
  have first: "exchange store c = (store(url \<mapsto> t), dispatch (Load 200 t) c)"
    using req by (simp add: exchange_def echo_backend_def)
  have second: "exchange (store(url \<mapsto> t)) (get J url) =
                  (store(url \<mapsto> t), dispatch (Load 200 t) (get J url))"
    by (simp add: exchange_def echo_backend_def get_sends [OF assms(3)])
  show ?thesis
    using c first second assms(2,3) by (simp add: round_trip_def get_load(1))
qed

theorem round_trip_score_witness:
  \<open>round_trip reference_browser Map.empty ''https://example.com/alice''
     (JObject [(''score'', JNumber 5)]) =
   Inr (Fulfilled \<lparr>status = 200, data = JObject [(''score'', JNumber 5)]\<rparr>)\<close>
  by (rule post_then_get_round_trip
      [OF reference_stringify_score reference_parse_score reference_url_alice])



text \<open>
  \<^bold>\<open>C10.\<close> The state in which a completion leaves the promise of a call is a function of the
  status code and the body text of that completion alone. On a page that has made any
  calls before (\<open>before\<close>) and does anything else meanwhile (\<open>between\<close>), a call of \<^verbatim>\<open>get\<close> or
  of \<^verbatim>\<open>post\<close> that completes with status \<open>s\<close> and body \<open>b\<close> ends with the same promise,
  whatever its url and its data.
\<close>

theorem outcome_depends_on_completion_only:
  assumes "stringify J d = Inr t" and "URL_canParse J url"
    and "\<forall>a \<in> set between. \<not> delivers_to (length (run J before)) a"
  shows "promise (run J (before @ CallGet url # between @
                           [Deliver (length (run J before)) (Load s b)])
                   ! length (run J before)) =
           (case parse J b of Inl e \<Rightarrow> Pending | Inr v \<Rightarrow> Fulfilled \<lparr>status = s, data = v\<rparr>) \<and>
         promise (run J (before @ CallPost url d # between @
                           [Deliver (length (run J before)) (Load s b)])
                   ! length (run J before)) =
           (case parse J b of Inl e \<Rightarrow> Pending | Inr v \<Rightarrow> Fulfilled \<lparr>status = s, data = v\<rparr>)"
proof -
  from assms(1,2) obtain c where c: "post J url d = Inr c"
    and init: "wired J c" "promise c = Pending" "uncaught c = []"
    by (rule post_call)
  have "step J (run J before) (CallGet url) = run J before @ [get J url]"
    by simp
  from run_new_call [OF this assms(3), of "Load s b"]
  have get_run: "run J (before @ CallGet url # between @
                          [Deliver (length (run J before)) (Load s b)])
                   ! length (run J before) = dispatch (Load s b) (get J url)" .
  have "step J (run J before) (CallPost url d) = run J before @ [c]"
    using c by simp
  from run_new_call [OF this assms(3), of "Load s b"]
  have post_run: "run J (before @ CallPost url d # between @
                           [Deliver (length (run J before)) (Load s b)])
                    ! length (run J before) = dispatch (Load s b) c" .
  show ?thesis
    by (simp only: get_run post_run get_load(1) [OF assms(2)] load_outcome(1) [OF init])
qed

theorem outcome_on_busy_page_witness:
  \<open>promise (run reference_browser
              ([CallGet ''https://example.com/bob'', Deliver 0 (Load 200 ''<html>'')] @
               CallPost ''https://example.com/alice'' (JObject [(''score'', JNumber 5)]) #
               [CallGet ''https://example.com/carol'', Deliver 0 Timeout, Deliver 2 Abort] @
               [Deliver 1 (Load 200 ''{"id":"alice","score":5}'')]) ! 1) =
     Fulfilled \<lparr>status = 200,
                data = JObject [(''id'', JString ''alice''), (''score'', JNumber 5)]\<rparr>\<close>
proof -
  let ?before = "[CallGet ''https://example.com/bob'', Deliver 0 (Load 200 ''<html>'')]"
  let ?between = "[CallGet ''https://example.com/carol'', Deliver 0 Timeout, Deliver 2 Abort]"
  have k: "length (run reference_browser ?before) = 1"
    by (simp add: run_def)
  have "\<forall>a \<in> set ?between. \<not> delivers_to (length (run reference_browser ?before)) a"
    by (simp add: k delivers_to_def)
  from outcome_depends_on_completion_only
    [OF reference_stringify_score reference_url_alice this,
      where s = 200 and b = \<open>''{"id":"alice","score":5}''\<close>]
  show ?thesis
    by (simp add: k reference_parse_alice)
qed

end
